theory Spec2Isabelle
  imports Main "HOL-Library.Word"
begin

section \<open>The MConn transport (p2p/transport\_mconn.go)\<close>

text \<open>
  A shallow embedding of the Go file \<^verbatim>\<open>p2p/transport_mconn.go\<close>: the stream
  (\<^verbatim>\<open>mConnStream\<close>), the connection (\<^verbatim>\<open>mConnConnection\<close>) and the transport
  (\<^verbatim>\<open>mConnTransport\<close>). Go values are modelled as follows.
  \<^item> \<^verbatim>\<open>byte\<close> is an 8-bit word, \<^verbatim>\<open>uint16\<close> a 16-bit word, \<^verbatim>\<open>[]byte\<close> a list of bytes.
  \<^item> A pointer that may be \<^verbatim>\<open>nil\<close> is an \<open>option\<close>; an \<^verbatim>\<open>error\<close> result is an
    \<open>error option\<close>, \<open>None\<close> being \<^verbatim>\<open>nil\<close>.
  \<^item> A \<^verbatim>\<open>net.Conn\<close> is known by its identity, a natural number.
\<close>

subsection \<open>Basic types and errors\<close>

type_synonym byte = "8 word"
type_synonym bytes = "byte list"
type_synonym uint16 = "16 word"
type_synonym ID = string
type_synonym net_Conn = nat

text \<open>
  A \<^verbatim>\<open>net.Addr\<close>: the code only tells a \<^verbatim>\<open>*net.TCPAddr\<close> (IP and port) from any
  other implementation.
\<close>

datatype net_Addr = TCPAddr bytes int | OtherAddr string

type_synonym NetAddress = "ID \<times> net_Addr"

text \<open>
  The classification flags of \<^verbatim>\<open>ErrRejected\<close>. A Go struct literal leaves the
  fields it does not name at their zero value, which is \<open>no_flags\<close> here.
\<close>

record rejection_flags =
  isAuthFailure :: bool
  isDuplicate :: bool
  isFiltered :: bool
  isIncompatible :: bool
  isNodeInfoInvalid :: bool
  isSelf :: bool

definition no_flags :: rejection_flags where
  "no_flags = \<lparr>isAuthFailure = False, isDuplicate = False, isFiltered = False,
     isIncompatible = False, isNodeInfoInvalid = False, isSelf = False\<rparr>"

text \<open>
  The errors the file produces. \<open>ErrRejected addr conn err id flags\<close> carries the five
  data fields of the Go struct in the order \<^verbatim>\<open>addr, conn, err, id\<close> and then its flags;
  \<open>Errorf\<close> is an error made by \<^verbatim>\<open>fmt.Errorf\<close> or \<^verbatim>\<open>errors.New\<close> or received from
  a collaborator, known by its message.
\<close>

datatype error =
    Errorf string
  | ErrShortBuffer
  | EOF
  | ErrFilterTimeout
  | ErrTransportClosed
  | ErrRejected "NetAddress option" net_Conn "error option" ID rejection_flags

text \<open>
  The text of an error, as \<^verbatim>\<open>%v\<close> prints it inside another message. The text of an
  \<^verbatim>\<open>ErrRejected\<close> is made by its \<^verbatim>\<open>Error\<close> method, which another file declares;
  no message of this file is built from one, and its text is left at one word.
\<close>

fun error_text :: "error \<Rightarrow> string" where
  "error_text (Errorf m) = m"
| "error_text ErrShortBuffer = ''short buffer''"
| "error_text EOF = ''EOF''"
| "error_text ErrFilterTimeout = ''filter timed out''"
| "error_text ErrTransportClosed = ''transport has been closed''"
| "error_text (ErrRejected a c e i f) = ''rejected''"

subsection \<open>Waiting on two channels\<close>

text \<open>
  Every blocking \<^verbatim>\<open>select\<close> of the stream has the same shape: one case communicates
  on the unbuffered channel \<^verbatim>\<open>chReceive\<close>, the other receives from \<^verbatim>\<open>chClose\<close>,
  which is never sent on and only ever closed. The hand-offs of the transport to the
  callers of \<^verbatim>\<open>Accept\<close> have this shape too, with \<^verbatim>\<open>chError\<close> or
  \<^verbatim>\<open>chAccept\<close> and the transport's \<^verbatim>\<open>chClose\<close>. What the rest of the program
  does while the goroutine waits is a \<open>wait_event\<close>: a partner arrives on the unbuffered
  channel (with a value, for a receive), or another goroutine closes \<^verbatim>\<open>chClose\<close>, or
  neither ever happens.

  A rendezvous on an unbuffered channel needs one side parked in its \<^verbatim>\<open>select\<close>.
  Closing \<^verbatim>\<open>chClose\<close> wakes every goroutine parked on it, and a \<^verbatim>\<open>select\<close>
  entered after the close finds \<^verbatim>\<open>chClose\<close> ready and does not park. So once
  \<^verbatim>\<open>chClose\<close> is closed only its case can proceed.
\<close>

datatype 'a wait_event = Partner 'a | Closes | Never

datatype 'a selected = ChanCase 'a | CloseCase | Blocks

definition select_chan_or_close :: "bool \<Rightarrow> 'a wait_event \<Rightarrow> 'a selected" where
  "select_chan_or_close closed ev =
     (if closed then CloseCase
      else (case ev of Partner x \<Rightarrow> ChanCase x | Closes \<Rightarrow> CloseCase | Never \<Rightarrow> Blocks))"

subsection \<open>mConnStream\<close>

text \<open>
  The state of a stream is its identifier and its close signal: \<open>chClose\<close> is
  \<open>True\<close> once \<^verbatim>\<open>close(s.chClose)\<close> has run, \<open>chCloseOnce\<close> is the done flag of
  the \<^verbatim>\<open>sync.Once\<close>. The channel \<^verbatim>\<open>chReceive\<close> is unbuffered and holds nothing
  between operations. The back pointer \<^verbatim>\<open>connection\<close> is used only to reach the
  multiplexer's \<^verbatim>\<open>Send\<close>, which \<open>Write\<close> takes as a parameter.
\<close>

record mConnStream =
  stream_id :: byte
  chClose :: bool
  chCloseOnce :: bool

text \<open>
  A call returns normally, or panics on the goroutine that made it, or never returns
  because a panic on another goroutine, which nothing there recovers, ends the process. A
  panic carries a value, known here by its text as \<^verbatim>\<open>%v\<close> prints it; runtime errors and
  the panics of the libraries carry a value other than \<^verbatim>\<open>nil\<close>. A goroutine that the
  code starts is described by the same type: it comes to its end, or it panics.
\<close>

datatype 'a call = Returns 'a | Panics string | Dies string

text \<open>\<^verbatim>\<open>newMConnStream\<close> (lines 588-598).\<close>

definition newMConnStream :: "uint16 \<Rightarrow> error + mConnStream" where
  "newMConnStream i =
     (if 255 < unat i then Inl (Errorf ''MConn only supports channel IDs up to 255'')
      else Inr \<lparr>stream_id = ucast i, chClose = False, chCloseOnce = False\<rparr>)"

text \<open>\<^verbatim>\<open>isClosed\<close> (lines 601-608): a \<^verbatim>\<open>select\<close> with a default case, which never blocks.\<close>

definition isClosed :: "mConnStream \<Rightarrow> bool" where
  "isClosed s = (if chClose s then True else False)"

text \<open>A blocking call returns a value or never returns.\<close>

datatype 'a outcome = Done 'a | Hangs

text \<open>
  \<^verbatim>\<open>receive\<close> (lines 611-628). The two events say how each of its two
  \<^verbatim>\<open>select\<close>s is resolved when it has to wait. The result is the list of the chunks
  that were handed to readers through \<^verbatim>\<open>chReceive\<close>, in the order of their hand-off,
  and the returned error, if the call returns. Error messages keep the fixed text of the
  format string and leave the formatted stream identifier out.
\<close>

definition receive ::
  "mConnStream \<Rightarrow> unit wait_event \<Rightarrow> unit wait_event \<Rightarrow> bytes \<Rightarrow> bool
     \<Rightarrow> bytes list \<times> error option outcome" where
  "receive s ev1 ev2 bz eof =
     (case (if 0 < length bz then select_chan_or_close (chClose s) ev1 else ChanCase ()) of
        Blocks \<Rightarrow> ([], Hangs)
      | CloseCase \<Rightarrow> ([], Done (Some (Errorf ''stream has been closed'')))
      | ChanCase u \<Rightarrow>
          (let sent = (if 0 < length bz then [bz] else []) in
           if eof then
             (case select_chan_or_close (chClose s) ev2 of
                Blocks \<Rightarrow> (sent, Hangs)
              | CloseCase \<Rightarrow> (sent, Done (Some (Errorf ''stream has been closed'')))
              | ChanCase u \<Rightarrow> (sent @ [[]], Done None))
           else (sent, Done None)))"

text \<open>
  The builtin \<^verbatim>\<open>copy(dst, src)\<close> copies \<open>min (len dst) (len src)\<close> elements and
  leaves the rest of \<open>dst\<close> as it was.
\<close>

definition copy :: "bytes \<Rightarrow> bytes \<Rightarrow> bytes" where
  "copy dst src = take (length dst) src @ drop (length src) dst"

text \<open>
  \<^verbatim>\<open>Read\<close> (lines 636-651). When the call returns, the result is the number of bytes
  read, the error and the contents of \<open>target\<close> afterwards.
\<close>

definition Read ::
  "mConnStream \<Rightarrow> bytes wait_event \<Rightarrow> bytes \<Rightarrow> (nat \<times> error option \<times> bytes) outcome" where
  "Read s ev target =
     (case select_chan_or_close (chClose s) ev of
        Blocks \<Rightarrow> Hangs
      | ChanCase bz \<Rightarrow>
          (if length target < length bz then Done (0, Some ErrShortBuffer, target)
           else Done (length bz, None, copy target bz))
      | CloseCase \<Rightarrow> Done (0, Some EOF, target))"

text \<open>
  \<^verbatim>\<open>Write\<close> (lines 658-666). \<open>send\<close> is \<^verbatim>\<open>s.connection.mConn.Send\<close>, the
  multiplexer's own send.
\<close>

definition Write ::
  "mConnStream \<Rightarrow> (byte \<Rightarrow> bytes \<Rightarrow> bool) \<Rightarrow> bytes \<Rightarrow> nat \<times> error option" where
  "Write s send bz =
     (if isClosed s then (0, Some (Errorf ''stream is closed''))
      else if \<not> send (stream_id s) bz then (0, Some (Errorf ''MConn send failed for stream''))
      else (length bz, None))"

text \<open>
  \<^verbatim>\<open>Close\<close> (lines 669-674). The builtin \<^verbatim>\<open>close\<close> panics on a channel that is
  already closed; the \<^verbatim>\<open>sync.Once\<close> runs it the first time only and returns at once
  afterwards.
\<close>

definition close_chClose :: "mConnStream \<Rightarrow> mConnStream call" where
  "close_chClose s =
     (if chClose s then Panics ''close of closed channel''
      else Returns (s\<lparr>chClose := True\<rparr>))"

definition Close :: "mConnStream \<Rightarrow> (mConnStream \<times> error option) call" where
  "Close s =
     (if chCloseOnce s then Returns (s, None)
      else (case close_chClose (s\<lparr>chCloseOnce := True\<rparr>) of
              Panics r \<Rightarrow> Panics r
            | Dies r \<Rightarrow> Dies r
            | Returns s' \<Rightarrow> Returns (s', None)))"

text \<open>
  Calling \<open>Close\<close> \<open>n\<close> times in a row; a panic of one call ends the sequence. The
  result carries the errors of the calls in order.
\<close>

fun Close_times :: "nat \<Rightarrow> mConnStream \<Rightarrow> (mConnStream \<times> error option list) call" where
  "Close_times 0 s = Returns (s, [])"
| "Close_times (Suc n) s =
     (case Close s of
        Panics r \<Rightarrow> Panics r
      | Dies r \<Rightarrow> Dies r
      | Returns (s', e) \<Rightarrow>
          (case Close_times n s' of
             Panics r \<Rightarrow> Panics r
           | Dies r \<Rightarrow> Dies r
           | Returns (s'', es) \<Rightarrow> Returns (s'', e # es)))"

text \<open>
  The streams of a connection are made by \<open>newMConnStream\<close> and changed by \<open>Close\<close>
  only: the channel is closed exactly when the \<^verbatim>\<open>sync.Once\<close> has run.
\<close>

definition stream_ok :: "mConnStream \<Rightarrow> bool" where
  "stream_ok s = (chClose s = chCloseOnce s)"

subsection \<open>Endpoint\<close>

definition MConnProtocol :: string where
  "MConnProtocol = ''mconn''"

record Endpoint =
  Protocol :: string
  PeerID :: ID
  IP :: bytes
  Port :: uint16
  Path :: string

text \<open>
  \<^verbatim>\<open>normalizeEndpoint\<close> (lines 312-335). It works on the caller's endpoint through a
  pointer: the result is the endpoint as the call leaves it, and the error.
  \<open>validate\<close> is \<^verbatim>\<open>Endpoint.Validate\<close>, which another file of the package
  declares.
\<close>

definition normalizeEndpoint ::
  "(Endpoint \<Rightarrow> error option) \<Rightarrow> Endpoint option \<Rightarrow> Endpoint option \<times> error option" where
  "normalizeEndpoint validate p =
     (case p of
        None \<Rightarrow> (None, Some (Errorf ''nil endpoint''))
      | Some endpoint \<Rightarrow>
          (case validate endpoint of
             Some err \<Rightarrow> (Some endpoint, Some err)
           | None \<Rightarrow>
               (let e1 = (if Protocol endpoint = [] then endpoint\<lparr>Protocol := MConnProtocol\<rparr>
                          else endpoint)
                in if Protocol e1 \<noteq> MConnProtocol
                     then (Some e1, Some (Errorf (''unsupported protocol '' @ Protocol e1)))
                   else if length (IP e1) = 0
                     then (Some e1, Some (Errorf ''endpoint must have an IP address''))
                   else if Path e1 \<noteq> []
                     then (Some e1, Some (Errorf (''endpoint cannot have path (got '' @ Path e1 @ '')'')))
                   else (Some (if Port e1 = 0 then e1\<lparr>Port := 26657\<rparr> else e1), None))))"

subsection \<open>Collaborators\<close>

text \<open>
  Modelled from the spec: the declaration of \<^verbatim>\<open>DefaultNodeInfo\<close> and its method
  \<^verbatim>\<open>ID\<close> are in another file of the package. A node-info descriptor is a peer's
  self-declared identity together with what compatibility is decided on (network, version,
  channels); \<^verbatim>\<open>ID()\<close> returns the declared identity.
\<close>

record DefaultNodeInfo =
  DefaultNodeID :: ID
  Network :: string
  Version :: string
  Channels :: bytes

definition NodeInfo_ID :: "DefaultNodeInfo \<Rightarrow> ID" where
  "NodeInfo_ID ni = DefaultNodeID ni"

text \<open>The zero value \<^verbatim>\<open>DefaultNodeInfo{}\<close>.\<close>

definition DefaultNodeInfo_zero :: DefaultNodeInfo where
  "DefaultNodeInfo_zero = \<lparr>DefaultNodeID = [], Network = [], Version = [], Channels = []\<rparr>"

text \<open>
  What the code reads from a \<^verbatim>\<open>tmconn.SecretConnection\<close>; a
  \<^verbatim>\<open>tmconn.MConnection\<close> is known by a handle.
\<close>

record SecretConnection =
  RemotePubKey :: bytes
  RemoteAddr :: net_Addr
  LocalAddr :: net_Addr

type_synonym MConnection = nat

record ChannelDescriptor =
  ID :: byte
  Priority :: int

text \<open>
  The functions of the package that the file calls and other files declare. Each is a
  parameter; those called inside \<^verbatim>\<open>newMConnConnection\<close> may panic.
  \<open>RemoteAddr_of\<close> is the method \<^verbatim>\<open>RemoteAddr\<close> of \<^verbatim>\<open>net.Conn\<close>: the remote
  address of each socket.
\<close>

record deps =
  RemoteAddr_of :: "net_Conn \<Rightarrow> net_Addr"
  Endpoint_Validate :: "Endpoint \<Rightarrow> error option"
  Validate :: "DefaultNodeInfo \<Rightarrow> error option call"
  CompatibleWith :: "DefaultNodeInfo \<Rightarrow> DefaultNodeInfo \<Rightarrow> error option call"
  PubKeyToID :: "bytes \<Rightarrow> ID call"
  NewNetAddress :: "ID \<Rightarrow> net_Addr \<Rightarrow> NetAddress call"

text \<open>
  Modelled from the spec: \<^verbatim>\<open>ConnSet\<close> is declared in another file of the package. It
  maps a raw connection to its resolved IPs; \<open>Has\<close> and \<open>HasIP\<close> look up, \<open>Set\<close>
  replaces the IP list of a connection, \<open>Remove\<close> deletes its entry and \<open>RemoveAddr\<close>
  the entries of the connections with the given remote address; absence is a normal
  result, no operation fails.
\<close>

type_synonym ConnSet = "(net_Conn \<times> bytes list) list"

definition ConnSet_Has :: "ConnSet \<Rightarrow> net_Conn \<Rightarrow> bool" where
  "ConnSet_Has cs c = list_ex (\<lambda>p. fst p = c) cs"

definition ConnSet_HasIP :: "ConnSet \<Rightarrow> bytes \<Rightarrow> bool" where
  "ConnSet_HasIP cs ip = list_ex (\<lambda>p. ip \<in> set (snd p)) cs"

definition ConnSet_Remove :: "ConnSet \<Rightarrow> net_Conn \<Rightarrow> ConnSet" where
  "ConnSet_Remove cs c = filter (\<lambda>p. fst p \<noteq> c) cs"

definition ConnSet_RemoveAddr :: "(net_Conn \<Rightarrow> net_Addr) \<Rightarrow> ConnSet \<Rightarrow> net_Addr \<Rightarrow> ConnSet" where
  "ConnSet_RemoveAddr remote cs a = filter (\<lambda>p. remote (fst p) \<noteq> a) cs"

definition ConnSet_Set :: "ConnSet \<Rightarrow> net_Conn \<Rightarrow> bytes list \<Rightarrow> ConnSet" where
  "ConnSet_Set cs c ips = (c, ips) # ConnSet_Remove cs c"

type_synonym ConnFilterFunc = "ConnSet \<Rightarrow> net_Conn \<Rightarrow> bytes list \<Rightarrow> error option"

text \<open>\<^verbatim>\<open>ConnDuplicateIPFilter\<close> (lines 57-68).\<close>

fun ConnDuplicateIPFilter :: ConnFilterFunc where
  "ConnDuplicateIPFilter cs c [] = None"
| "ConnDuplicateIPFilter cs c (ip # ips) =
     (if ConnSet_HasIP cs ip
      then Some (ErrRejected None c (Some (Errorf ''ip already connected'')) []
                   (no_flags\<lparr>isDuplicate := True\<rparr>))
      else ConnDuplicateIPFilter cs c ips)"

subsection \<open>mConnTransport\<close>

text \<open>
  The fields of the transport that the modelled functions read or write. \<open>t_nodeInfo\<close>
  is the field \<^verbatim>\<open>nodeInfo\<close> and \<open>t_chClose\<close> says whether the transport's
  \<^verbatim>\<open>chClose\<close> has been closed. Durations are in ticks of the clock.
\<close>

record mConnTransport =
  t_nodeInfo :: DefaultNodeInfo
  channelDescs :: "ChannelDescriptor list"
  dialTimeout :: nat
  handshakeTimeout :: nat
  filterTimeout :: nat
  t_chClose :: bool
  conns :: ConnSet
  connFilters :: "ConnFilterFunc list"

text \<open>
  What the world outside the transport does for one socket: the results of the library
  calls made on it, when each filter reports, and how each blocking hand-off to the
  callers of \<^verbatim>\<open>Accept\<close> is resolved.
  \<^item> \<open>SplitHostPort\<close> is the result of
    \<^verbatim>\<open>net.SplitHostPort(tcpConn.RemoteAddr().String())\<close> (the host, on success) and
    \<open>ParseIP\<close> that of \<^verbatim>\<open>net.ParseIP(host)\<close>.
  \<^item> \<open>filter_delays\<close> gives, for each filter in the order of \<^verbatim>\<open>connFilters\<close>, the
    time after its dispatch at which it sends its result to \<^verbatim>\<open>chErr\<close>, or \<open>None\<close>
    when it never does. \<open>select_tie\<close> is the choice a \<^verbatim>\<open>select\<close> makes when a
    filter result and the timer become ready at the same tick: \<open>True\<close> takes the result.
  \<^item> \<open>SetDeadline\<close> and \<open>ClearDeadline\<close> are the two calls of
    \<^verbatim>\<open>tcpConn.SetDeadline\<close>. \<open>exchange\<close> says how the two worker goroutines of
    \<^verbatim>\<open>handshake\<close> end, the one that ends first coming first: a worker that returns
    sends its error to the channel, a worker that panics sends nothing.
  \<^item> \<open>Stop\<close> and \<open>SecretConn_Close\<close> are the calls \<^verbatim>\<open>c.mConn.Stop()\<close> and
    \<^verbatim>\<open>c.secretConn.Close()\<close> made when the connection is closed.
\<close>

record io =
  SplitHostPort :: "error + string"
  ParseIP :: "bytes option"
  filter_delays :: "nat option list"
  select_tie :: bool
  SetDeadline :: "error option call"
  MakeSecretConnection :: "(error + SecretConnection) call"
  exchange :: "error option call \<times> error option call"
  DefaultNodeInfoFromProto :: "(DefaultNodeInfo \<times> error option) call"
  ClearDeadline :: "error option call"
  NewMConnectionWithConfig :: "MConnection call"
  Start :: "error option call"
  Stop :: "error option call"
  SecretConn_Close :: "error option call"
  DialContext :: "error + net_Conn"
  filter_error_wait :: "unit wait_event"
  handshake_error_wait :: "unit wait_event"
  accept_wait :: "unit wait_event"

text \<open>
  The filter goroutines (lines 285-290): each filter that reports sends its result to the
  buffered channel \<^verbatim>\<open>chErr\<close> at its time; the channel hands the results out in the
  order in which they were sent.
\<close>

definition dispatch_filters ::
  "mConnTransport \<Rightarrow> nat option list \<Rightarrow> net_Conn \<Rightarrow> bytes \<Rightarrow> (nat \<times> error option) list" where
  "dispatch_filters m delays tcpConn ip =
     sort_key fst
       (concat (map (\<lambda>(connFilter, d).
                       case d of None \<Rightarrow> []
                               | Some t \<Rightarrow> [(t, connFilter (conns m) tcpConn [ip])])
                    (zip (connFilters m) delays)))"

text \<open>
  The loop that collects the results (lines 292-302). \<open>k\<close> iterations are left, the
  clock shows \<open>now\<close>, and the list holds the results not yet received with the times at
  which they were sent. Every iteration arms a new timer, \<^verbatim>\<open>time.After(m.filterTimeout)\<close>,
  which fires at \<open>now + T\<close>; the next result can be received at \<open>max now t\<close>.
\<close>

fun await_filters ::
  "net_Conn \<Rightarrow> nat \<Rightarrow> bool \<Rightarrow> nat \<Rightarrow> nat \<Rightarrow> (nat \<times> error option) list \<Rightarrow> error option" where
  "await_filters tcpConn T tie 0 now q = None"
| "await_filters tcpConn T tie (Suc k) now [] = Some ErrFilterTimeout"
| "await_filters tcpConn T tie (Suc k) now ((t, r) # q) =
     (if max now t < now + T \<or> (max now t = now + T \<and> tie) then
        (case r of
           Some err \<Rightarrow> Some (ErrRejected None tcpConn (Some err) [] (no_flags\<lparr>isFiltered := True\<rparr>))
         | None \<Rightarrow> await_filters tcpConn T tie k (max now t) q)
      else Some ErrFilterTimeout)"

text \<open>\<^verbatim>\<open>filterTCPConn\<close> (lines 269-309).\<close>

definition filterTCPConn ::
  "mConnTransport \<Rightarrow> io \<Rightarrow> net_Conn \<Rightarrow> mConnTransport \<times> error option" where
  "filterTCPConn m w tcpConn =
     (if ConnSet_Has (conns m) tcpConn
        then (m, Some (ErrRejected None tcpConn None [] (no_flags\<lparr>isDuplicate := True\<rparr>)))
      else
        (case SplitHostPort w of
           Inl err \<Rightarrow> (m, Some err)
         | Inr host \<Rightarrow>
             (case ParseIP w of
                None \<Rightarrow> (m, Some (Errorf (''connection address has invalid IP address '' @ host)))
              | Some ip \<Rightarrow>
                  (case await_filters tcpConn (filterTimeout m) (select_tie w)
                          (length (connFilters m)) 0
                          (dispatch_filters m (filter_delays w) tcpConn ip) of
                     Some err \<Rightarrow> (m, Some err)
                   | None \<Rightarrow> (m\<lparr>conns := ConnSet_Set (conns m) tcpConn [ip]\<rparr>, None)))))"

subsection \<open>mConnConnection\<close>

text \<open>
  The connection: its secure channel and multiplexer once they exist, its streams by
  channel identifier, and the peer's node info. The map holds the streams themselves; a
  lookup that finds nothing is the \<^verbatim>\<open>nil\<close> pointer. The fields \<^verbatim>\<open>transport\<close> and
  \<^verbatim>\<open>logger\<close> are passed along as parameters or left out.
\<close>

record mConnConnection =
  secretConn :: "SecretConnection option"
  mConn :: "MConnection option"
  streams :: "byte \<rightharpoonup> mConnStream"
  nodeInfo :: DefaultNodeInfo

text \<open>
  A function body is left by returning or by a panic that unwinds it, and either way its
  named results have a value at that moment; or it is never left, because the process
  ends.
\<close>

datatype 'a exit = Return 'a | Panic string 'a | Killed string

type_synonym named_results = "mConnConnection option \<times> error option"

definition call_then ::
  "'a call \<Rightarrow> named_results \<Rightarrow> ('a \<Rightarrow> named_results exit) \<Rightarrow> named_results exit" where
  "call_then c nr k =
     (case c of Panics r \<Rightarrow> Panic r nr | Dies r \<Rightarrow> Killed r | Returns v \<Rightarrow> k v)"

text \<open>
  \<^verbatim>\<open>handshake\<close> (lines 489-506): the two workers write this node's info and read
  the peer's, each in a goroutine of its own, and send their results to a channel; the loop
  takes the two results from the channel and returns at the first error; then the received
  message is decoded. A panic in a worker is a panic on the worker's goroutine, where no
  function has deferred a \<^verbatim>\<open>recover\<close>: it ends the process while \<open>handshake\<close> waits
  for that worker's result. When the first result is an error, \<open>handshake\<close> returns
  without waiting for the other worker; what that worker does afterwards is not part of
  the call.
\<close>

definition handshake :: "io \<Rightarrow> (DefaultNodeInfo \<times> error option) call" where
  "handshake w =
     (case fst (exchange w) of
        Panics r \<Rightarrow> Dies r
      | Dies r \<Rightarrow> Dies r
      | Returns (Some err) \<Rightarrow> Returns (DefaultNodeInfo_zero, Some err)
      | Returns None \<Rightarrow>
          (case snd (exchange w) of
             Panics r \<Rightarrow> Dies r
           | Dies r \<Rightarrow> Dies r
           | Returns (Some err) \<Rightarrow> Returns (DefaultNodeInfo_zero, Some err)
           | Returns None \<Rightarrow> DefaultNodeInfoFromProto w))"

text \<open>
  \<^verbatim>\<open>RemoteEndpoint\<close> (lines 546-554). The type assertion panics when the address is
  not a \<^verbatim>\<open>*net.TCPAddr\<close>; \<^verbatim>\<open>uint16(addr.Port)\<close> keeps the low 16 bits.
\<close>

definition RemoteEndpoint :: "SecretConnection \<Rightarrow> DefaultNodeInfo \<Rightarrow> Endpoint call" where
  "RemoteEndpoint sc ni =
     (case RemoteAddr sc of
        TCPAddr ip port \<Rightarrow>
          Returns \<lparr>Protocol = MConnProtocol, PeerID = NodeInfo_ID ni, IP = ip,
                   Port = word_of_int port, Path = []\<rparr>
      | OtherAddr a \<Rightarrow> Panics ''interface conversion: net.Addr is not *net.TCPAddr'')"

text \<open>
  The loop over the channel descriptors (lines 464-474). When \<open>newMConnStream\<close> fails
  the map entry has been assigned the \<^verbatim>\<open>nil\<close> pointer before the error is seen.
\<close>

fun make_streams ::
  "ChannelDescriptor list \<Rightarrow> (byte \<rightharpoonup> mConnStream) \<Rightarrow> (byte \<rightharpoonup> mConnStream) \<times> error option" where
  "make_streams [] st = (st, None)"
| "make_streams (chDesc # rest) st =
     (case newMConnStream (ucast (ID chDesc)) of
        Inl err \<Rightarrow> (st(ID chDesc := None), Some err)
      | Inr s \<Rightarrow> make_streams rest (st(ID chDesc \<mapsto> s)))"

definition auth_failure :: "net_Conn \<Rightarrow> string \<Rightarrow> error" where
  "auth_failure tcpConn msg =
     ErrRejected None tcpConn (Some (Errorf msg)) [] (no_flags\<lparr>isAuthFailure := True\<rparr>)"

text \<open>
  The end of \<^verbatim>\<open>newMConnConnection\<close> (lines 453-485): the deadline is cleared, the
  streams and the multiplexer are made, and the multiplexer is started.
\<close>

definition start_mconn ::
  "mConnTransport \<Rightarrow> io \<Rightarrow> net_Conn \<Rightarrow> SecretConnection \<Rightarrow> mConnConnection
     \<Rightarrow> named_results exit" where
  "start_mconn transport w tcpConn sc conn =
     call_then (ClearDeadline w) (Some conn, None) (\<lambda>e.
       case e of
         Some err \<Rightarrow>
           Return (Some conn, Some (auth_failure tcpConn (''secret conn failed: '' @ error_text err)))
       | None \<Rightarrow>
           (case make_streams (channelDescs transport) (streams conn) of
              (st, Some err) \<Rightarrow>
                Return (Some (conn\<lparr>streams := st\<rparr>),
                        Some (auth_failure tcpConn (''mconn failed: '' @ error_text err)))
            | (st, None) \<Rightarrow>
                call_then (NewMConnectionWithConfig w) (Some (conn\<lparr>streams := st\<rparr>), None) (\<lambda>mc.
                  let conn' = conn\<lparr>streams := st, mConn := Some mc\<rparr> in
                  call_then (RemoteEndpoint sc (nodeInfo conn')) (Some conn', None) (\<lambda>ep.
                    call_then (Start w) (Some conn', None) (\<lambda>err.
                      Return (Some conn', err))))))"

text \<open>The identity checks of \<^verbatim>\<open>newMConnConnection\<close> (lines 413-451).\<close>

definition check_identity ::
  "deps \<Rightarrow> mConnTransport \<Rightarrow> io \<Rightarrow> net_Conn \<Rightarrow> ID \<Rightarrow> SecretConnection \<Rightarrow> mConnConnection
     \<Rightarrow> named_results exit" where
  "check_identity d transport w tcpConn expectPeerID sc conn =
     (let reject_self_and_rest =
        (if NodeInfo_ID (t_nodeInfo transport) = NodeInfo_ID (nodeInfo conn) then
           call_then (NewNetAddress d (NodeInfo_ID (nodeInfo conn)) (RemoteAddr sc))
             (Some conn, None) (\<lambda>a.
               Return (Some conn,
                       Some (ErrRejected (Some a) tcpConn None (NodeInfo_ID (nodeInfo conn))
                               (no_flags\<lparr>isSelf := True\<rparr>))))
         else
           call_then (CompatibleWith d (t_nodeInfo transport) (nodeInfo conn))
             (Some conn, None) (\<lambda>e.
               case e of
                 Some err \<Rightarrow>
                   Return (Some conn,
                           Some (ErrRejected None tcpConn (Some err) (NodeInfo_ID (nodeInfo conn))
                                   (no_flags\<lparr>isIncompatible := True\<rparr>)))
               | None \<Rightarrow> start_mconn transport w tcpConn sc conn))
      in if expectPeerID \<noteq> [] then
           call_then (PubKeyToID d (RemotePubKey sc)) (Some conn, None) (\<lambda>peerID.
             if expectPeerID \<noteq> peerID then
               Return (Some conn,
                       Some (ErrRejected None tcpConn
                               (Some (Errorf (''conn.ID ('' @ peerID @ '') dialed ID (''
                                                @ expectPeerID @ '') mismatch'')))
                               peerID (no_flags\<lparr>isAuthFailure := True\<rparr>)))
             else reject_self_and_rest)
         else reject_self_and_rest)"

text \<open>
  The body of \<^verbatim>\<open>newMConnConnection\<close> (lines 368-485), which starts with the deadline,
  the secure channel, the node-info exchange and its validation.
\<close>

definition newMConnConnection_body ::
  "deps \<Rightarrow> mConnTransport \<Rightarrow> io \<Rightarrow> net_Conn \<Rightarrow> ID \<Rightarrow> named_results exit" where
  "newMConnConnection_body d transport w tcpConn expectPeerID =
     call_then (SetDeadline w) (None, None) (\<lambda>e.
       case e of
         Some err \<Rightarrow>
           Return (None, Some (auth_failure tcpConn (''secret conn failed: '' @ error_text err)))
       | None \<Rightarrow>
           (let conn = \<lparr>secretConn = None, mConn = None, streams = Map.empty,
                        nodeInfo = DefaultNodeInfo_zero\<rparr>
            in call_then (MakeSecretConnection w) (Some conn, None) (\<lambda>r.
                 case r of
                   Inl err \<Rightarrow>
                     Return (Some conn,
                             Some (auth_failure tcpConn (''secret conn failed: '' @ error_text err)))
                 | Inr sc \<Rightarrow>
                     (let conn1 = conn\<lparr>secretConn := Some sc\<rparr>
                      in call_then (handshake w) (Some conn1, None) (\<lambda>(ni, e).
                           let conn2 = conn1\<lparr>nodeInfo := ni\<rparr> in
                           case e of
                             Some err \<Rightarrow>
                               Return (Some conn2,
                                       Some (auth_failure tcpConn
                                               (''handshake failed: '' @ error_text err)))
                           | None \<Rightarrow>
                               call_then (Validate d (nodeInfo conn2)) (Some conn2, None) (\<lambda>e.
                                 case e of
                                   Some err \<Rightarrow>
                                     Return (Some conn2,
                                             Some (ErrRejected None tcpConn (Some err) []
                                                     (no_flags\<lparr>isNodeInfoInvalid := True\<rparr>)))
                                 | None \<Rightarrow>
                                     check_identity d transport w tcpConn expectPeerID sc
                                       conn2))))))"

text \<open>
  \<^verbatim>\<open>newMConnConnection\<close> (lines 350-486): the body under its deferred function
  (lines 358-366). \<^verbatim>\<open>recover()\<close> is \<^verbatim>\<open>nil\<close> when the body returned; when it
  panicked with the value \<open>r\<close>, the deferred function stops the panic and sets the named
  result \<^verbatim>\<open>err\<close>, and the function returns its named results to the caller. The
  deferred function runs on the goroutine of the call: it sees no panic of another
  goroutine.
\<close>

definition newMConnConnection ::
  "deps \<Rightarrow> mConnTransport \<Rightarrow> io \<Rightarrow> net_Conn \<Rightarrow> ID \<Rightarrow> named_results call" where
  "newMConnConnection d transport w tcpConn expectPeerID =
     (case newMConnConnection_body d transport w tcpConn expectPeerID of
        Return nr \<Rightarrow> Returns nr
      | Panic r nr \<Rightarrow>
          Returns (fst nr, Some (auth_failure tcpConn (''recovered from panic: '' @ r)))
      | Killed r \<Rightarrow> Dies r)"


text \<open>
  A value of the interface type \<^verbatim>\<open>Stream\<close>: the \<^verbatim>\<open>nil\<close> interface, or an interface
  that holds a \<^verbatim>\<open>*mConnStream\<close>. The pointer it holds may itself be \<^verbatim>\<open>nil\<close>; such
  a value is not the \<^verbatim>\<open>nil\<close> interface and does not compare equal to \<^verbatim>\<open>nil\<close>.
\<close>

datatype Stream_value = NilStream | HoldsStream "mConnStream option"

text \<open>
  \<^verbatim>\<open>Stream\<close> (lines 557-560): \<^verbatim>\<open>byte(id)\<close> keeps the low 8 bits; the
  \<^verbatim>\<open>*mConnStream\<close> found in the map, \<^verbatim>\<open>nil\<close> for a missing key, is converted to
  the interface type of the result.
\<close>

definition Stream :: "mConnConnection \<Rightarrow> uint16 \<Rightarrow> Stream_value \<times> error option" where
  "Stream c i = (HoldsStream (streams c (ucast i)), None)"

text \<open>
  \<^verbatim>\<open>Close\<close> of the connection (lines 563-575). The streams of the map are closed one
  after the other, here in the order of their keys. The result is the transport and the
  connection afterwards, and the error. A method called through a \<^verbatim>\<open>nil\<close> pointer
  panics.
\<close>

fun close_streams ::
  "byte list \<Rightarrow> (byte \<rightharpoonup> mConnStream) \<Rightarrow> error option
     \<Rightarrow> ((byte \<rightharpoonup> mConnStream) \<times> error option) call" where
  "close_streams [] st err = Returns (st, err)"
| "close_streams (b # bs) st err =
     (case st b of
        None \<Rightarrow> close_streams bs st err
      | Some stream \<Rightarrow>
          (case Close stream of
             Panics r \<Rightarrow> Panics r
           | Dies r \<Rightarrow> Dies r
           | Returns (stream', e) \<Rightarrow>
               close_streams bs (st(b \<mapsto> stream'))
                 (if e \<noteq> None \<and> err = None then e else err)))"

definition mConnConnection_Close ::
  "deps \<Rightarrow> mConnTransport \<Rightarrow> io \<Rightarrow> mConnConnection
     \<Rightarrow> (mConnTransport \<times> mConnConnection \<times> error option) call" where
  "mConnConnection_Close d m w c =
     (case secretConn c of
        None \<Rightarrow> Panics ''invalid memory address or nil pointer dereference''
      | Some sc \<Rightarrow>
          (let m' = m\<lparr>conns := ConnSet_RemoveAddr (RemoteAddr_of d) (conns m) (RemoteAddr sc)\<rparr> in
           case mConn c of
             None \<Rightarrow> Panics ''invalid memory address or nil pointer dereference''
           | Some mc \<Rightarrow>
               (case Stop w of
                  Panics r \<Rightarrow> Panics r
                | Dies r \<Rightarrow> Dies r
                | Returns err \<Rightarrow>
                    (case SecretConn_Close w of
                       Panics r \<Rightarrow> Panics r
                     | Dies r \<Rightarrow> Dies r
                     | Returns e \<Rightarrow>
                         (case close_streams (map of_nat [0..<256]) (streams c)
                                 (if e \<noteq> None \<and> err = None then e else err) of
                            Panics r \<Rightarrow> Panics r
                          | Dies r \<Rightarrow> Dies r
                          | Returns (st, err') \<Rightarrow> Returns (m', c\<lparr>streams := st\<rparr>, err'))))))"

text \<open>\<^verbatim>\<open>onReceive\<close> (lines 509-515).\<close>

definition onReceive ::
  "mConnConnection \<Rightarrow> byte \<Rightarrow> unit wait_event \<Rightarrow> unit wait_event \<Rightarrow> bytes \<Rightarrow> bool
     \<Rightarrow> bytes list \<times> error option outcome" where
  "onReceive c chID ev1 ev2 bz eof =
     (case streams c chID of
        None \<Rightarrow> ([], Done (Some (Errorf ''received message for unknown channel'')))
      | Some stream \<Rightarrow> receive stream ev1 ev2 bz eof)"

subsection \<open>The accept worker and Dial\<close>

text \<open>
  What a worker does to the world outside the transport's own state, in order: closing a
  socket, calling \<^verbatim>\<open>newMConnConnection\<close> on a socket with an expected peer, handing
  an error or a connection to a caller of \<^verbatim>\<open>Accept\<close>, closing a connection; and
  the end of the process by a panic that nothing recovers.
\<close>

datatype event =
    TcpClose net_Conn
  | Handshake net_Conn ID
  | ErrorSent error
  | ConnAccepted "mConnConnection option"
  | ConnClose "mConnConnection option"
  | ProcessDies string

text \<open>
  The hand-off of an error (lines 178-181 and 187-190): \<^verbatim>\<open>m.chError <- err\<close> against
  \<^verbatim>\<open><-m.chClose\<close>. The flag says whether the \<^verbatim>\<open>select\<close> was left.
\<close>

definition send_error :: "mConnTransport \<Rightarrow> unit wait_event \<Rightarrow> error \<Rightarrow> event list \<times> bool" where
  "send_error m ev err =
     (case select_chan_or_close (t_chClose m) ev of
        ChanCase u \<Rightarrow> ([ErrorSent err], True)
      | CloseCase \<Rightarrow> ([], True)
      | Blocks \<Rightarrow> ([], False))"

text \<open>
  The worker that \<^verbatim>\<open>accept\<close> starts for each socket it accepts (lines 174-198). The
  result is the transport afterwards, the events in order, and whether the worker ran to
  its end. The worker is a goroutine of its own and defers no \<^verbatim>\<open>recover\<close>: a panic
  in it ends the process.
\<close>

definition accept_worker ::
  "deps \<Rightarrow> mConnTransport \<Rightarrow> io \<Rightarrow> net_Conn \<Rightarrow> mConnTransport \<times> event list \<times> bool" where
  "accept_worker d m w tcpConn =
     (case filterTCPConn m w tcpConn of (m1, ferr) \<Rightarrow>
        (case (case ferr of
                 None \<Rightarrow> ([], True)
               | Some err \<Rightarrow>
                   (case send_error m1 (filter_error_wait w) err of
                      (es, left) \<Rightarrow> (TcpClose tcpConn # es, left))) of
           (es1, left1) \<Rightarrow>
             if \<not> left1 then (m1, es1, False)
             else
               (case newMConnConnection d m1 w tcpConn [] of
                  Panics r \<Rightarrow> (m1, es1 @ [Handshake tcpConn [], ProcessDies r], False)
                | Dies r \<Rightarrow> (m1, es1 @ [Handshake tcpConn [], ProcessDies r], False)
                | Returns (conn, Some err) \<Rightarrow>
                    (let m2 = m1\<lparr>conns := ConnSet_Remove (conns m1) tcpConn\<rparr> in
                     case send_error m2 (handshake_error_wait w) err of
                       (es, left) \<Rightarrow>
                         (m2, es1 @ [Handshake tcpConn [], TcpClose tcpConn] @ es, left))
                | Returns (conn, None) \<Rightarrow>
                    (case select_chan_or_close (t_chClose m1) (accept_wait w) of
                       ChanCase u \<Rightarrow> (m1, es1 @ [Handshake tcpConn [], ConnAccepted conn], True)
                     | Blocks \<Rightarrow> (m1, es1 @ [Handshake tcpConn []], False)
                     | CloseCase \<Rightarrow>
                         (case conn of
                            None \<Rightarrow>
                              (m1, es1 @ [Handshake tcpConn [], ConnClose conn,
                                          ProcessDies ''invalid memory address or nil pointer dereference''],
                               False)
                          | Some c \<Rightarrow>
                              (case mConnConnection_Close d m1 w c of
                                 Returns (m2, c', e) \<Rightarrow>
                                   (m2, es1 @ [Handshake tcpConn [], ConnClose conn], True)
                               | Panics r \<Rightarrow>
                                   (m1, es1 @ [Handshake tcpConn [], ConnClose conn, ProcessDies r],
                                    False)
                               | Dies r \<Rightarrow>
                                   (m1, es1 @ [Handshake tcpConn [], ConnClose conn, ProcessDies r],
                                    False)))))))"

text \<open>
  \<^verbatim>\<open>Dial\<close> (lines 217-243). The result is the transport afterwards, the events in
  order, and how the call ends, with the returned connection and error if it returns.
  \<open>normalizeEndpoint\<close> gets the address of Dial's own copy of the endpoint, which is
  never \<^verbatim>\<open>nil\<close>: the second case below is there for completeness only.
\<close>

definition Dial ::
  "deps \<Rightarrow> mConnTransport \<Rightarrow> io \<Rightarrow> Endpoint
     \<Rightarrow> mConnTransport \<times> event list \<times> named_results call" where
  "Dial d m w endpoint0 =
     (case normalizeEndpoint (Endpoint_Validate d) (Some endpoint0) of
        (p, Some err) \<Rightarrow> (m, [], Returns (None, Some err))
      | (None, None) \<Rightarrow> (m, [], Returns (None, Some (Errorf ''nil endpoint'')))
      | (Some endpoint, None) \<Rightarrow>
          (case DialContext w of
             Inl err \<Rightarrow> (m, [], Returns (None, Some err))
           | Inr tcpConn \<Rightarrow>
               (case filterTCPConn m w tcpConn of
                  (m1, Some err) \<Rightarrow> (m1, [], Returns (None, Some err))
                | (m1, None) \<Rightarrow>
                    (case newMConnConnection d m1 w tcpConn (PeerID endpoint) of
                       Panics r \<Rightarrow> (m1, [Handshake tcpConn (PeerID endpoint)], Panics r)
                     | Dies r \<Rightarrow> (m1, [Handshake tcpConn (PeerID endpoint)], Dies r)
                     | Returns (conn, Some err) \<Rightarrow>
                         (m1\<lparr>conns := ConnSet_Remove (conns m1) tcpConn\<rparr>,
                          [Handshake tcpConn (PeerID endpoint)], Returns (None, Some err))
                     | Returns (conn, None) \<Rightarrow>
                         (m1, [Handshake tcpConn (PeerID endpoint)], Returns (conn, None))))))"

subsection \<open>A node and a peer\<close>

text \<open>
  A concrete setting for evaluating the functions: node \<open>node1\<close> on network
  \<open>testnet\<close> with one channel, the duplicate-IP filter and a filter timeout of 5 ticks,
  and a well-behaved peer \<open>node2\<close> at 10.0.0.2 behind socket 7. The package functions
  are given simple behaviours: a node info is valid when it declares an identity, two are
  compatible when their networks agree, and the identity derived from the public key
  \<open>[n]\<close> is that of node \<open>n\<close> for the two nodes here.
\<close>

definition node1_info :: DefaultNodeInfo where
  "node1_info = \<lparr>DefaultNodeID = ''node1'', Network = ''testnet'', Version = ''1'', Channels = [1]\<rparr>"

definition node2_info :: DefaultNodeInfo where
  "node2_info = \<lparr>DefaultNodeID = ''node2'', Network = ''testnet'', Version = ''1'', Channels = [1]\<rparr>"

definition example_deps :: deps where
  "example_deps =
     \<lparr>RemoteAddr_of =
        (\<lambda>c. if c = 7 then TCPAddr [10, 0, 0, 2] 26656 else OtherAddr ''pipe''),
      Endpoint_Validate =
        (\<lambda>e. if PeerID e = [] then Some (Errorf ''endpoint has no peer ID'') else None),
      Validate =
        (\<lambda>ni. Returns (if DefaultNodeID ni = [] then Some (Errorf ''no ID'') else None)),
      CompatibleWith =
        (\<lambda>a b. Returns (if Network a = Network b then None
                          else Some (Errorf ''peer is on a different network''))),
      PubKeyToID =
        (\<lambda>k. Returns (if k = [1] then ''node1'' else if k = [2] then ''node2'' else ''unknown'')),
      NewNetAddress =
        (\<lambda>i a. case a of TCPAddr ip port \<Rightarrow> Returns (i, a)
                          | OtherAddr t \<Rightarrow> Panics ''only TCPAddrs are supported'')\<rparr>"

definition node1 :: mConnTransport where
  "node1 =
     \<lparr>t_nodeInfo = node1_info, channelDescs = [\<lparr>ID = 1, Priority = 5\<rparr>],
      dialTimeout = 1, handshakeTimeout = 3, filterTimeout = 5, t_chClose = False,
      conns = [], connFilters = [ConnDuplicateIPFilter]\<rparr>"

definition peer2_secret :: SecretConnection where
  "peer2_secret =
     \<lparr>RemotePubKey = [2], RemoteAddr = TCPAddr [10, 0, 0, 2] 26656,
      LocalAddr = TCPAddr [10, 0, 0, 1] 40000\<rparr>"

definition peer2 :: io where
  "peer2 =
     \<lparr>SplitHostPort = Inr ''10.0.0.2'', ParseIP = Some [10, 0, 0, 2],
      filter_delays = [Some 2], select_tie = False,
      SetDeadline = Returns None,
      MakeSecretConnection = Returns (Inr peer2_secret),
      exchange = (Returns None, Returns None),
      DefaultNodeInfoFromProto = Returns (node2_info, None),
      ClearDeadline = Returns None,
      NewMConnectionWithConfig = Returns 0,
      Start = Returns None,
      Stop = Returns None,
      SecretConn_Close = Returns None,
      DialContext = Inr 7,
      filter_error_wait = Partner (), handshake_error_wait = Partner (),
      accept_wait = Partner ()\<rparr>"


subsection \<open>Timing of the filter step\<close>




section \<open>Properties\<close>

subsection \<open>Streams\<close>

lemma Close_first: "stream_ok s \<Longrightarrow> Close s = Returns (s\<lparr>chClose := True, chCloseOnce := True\<rparr>, None)"
  by (cases s) (auto simp: Close_def close_chClose_def stream_ok_def)

lemma Close_times_done: "chCloseOnce s \<Longrightarrow> Close_times n s = Returns (s, replicate n None)"
  by (induction n) (simp_all add: Close_def)

text \<open>
  C5. A \<open>Read\<close> whose \<^verbatim>\<open>select\<close> receives a chunk longer than the caller's buffer
  returns 0 bytes and the short-buffer error, and leaves the buffer as it was: nothing of
  the chunk is copied. A chunk that fits is copied whole. So a \<open>Read\<close> never delivers
  part of a chunk.
\<close>

theorem Read_short_buffer:
  "select_chan_or_close (chClose s) ev = ChanCase bz \<Longrightarrow>
     (length target < length bz \<longrightarrow> Read s ev target = Done (0, Some ErrShortBuffer, target))
   \<and> (length bz \<le> length target \<longrightarrow>
          Read s ev target = Done (length bz, None, bz @ drop (length bz) target))"
  by (simp add: Read_def copy_def)

theorem Read_short_buffer_witness:
  "Read \<lparr>stream_id = 1, chClose = False, chCloseOnce = False\<rparr> (Partner [1, 2, 3]) [0, 0]
       = Done (0, Some ErrShortBuffer, [0, 0])
   \<and> Read \<lparr>stream_id = 1, chClose = False, chCloseOnce = False\<rparr> (Partner [1, 2, 3]) [0, 0, 0, 0]
       = Done (3, None, [1, 2, 3, 0])"
proof -
  let ?s = "\<lparr>stream_id = 1, chClose = False, chCloseOnce = False\<rparr>"
  have sel: "select_chan_or_close (chClose ?s) (Partner [1, 2, 3 :: byte]) = ChanCase [1, 2, 3]"
    by (simp add: select_chan_or_close_def)
  have short: "length [0, 0 :: byte] < length [1, 2, 3 :: byte]" by simp
  have fits: "length [1, 2, 3 :: byte] \<le> length [0, 0, 0, 0 :: byte]" by simp
  show ?thesis
    using Read_short_buffer [OF sel, of "[0, 0]"] Read_short_buffer [OF sel, of "[0, 0, 0, 0]"]
      short fits
    by simp
qed

text \<open>
  C7. For \<open>receive bz True\<close> with a non-empty \<open>bz\<close>, the chunks handed to the reader
  are the payload and then the empty chunk, in that order: whatever the call is
  interrupted by, what was handed over is a prefix of \<open>[bz, []]\<close>, the call returns
  \<^verbatim>\<open>nil\<close> exactly when both were handed over, and on an open stream whose reader takes
  both it hands over both. A \<open>Read\<close> that receives the empty chunk returns 0 bytes and no
  error, and changes nothing in the buffer; so the reader's two calls of \<open>Read\<close>, with
  buffers that the payload fits in, return the payload and then 0 bytes with no error.
\<close>

theorem receive_payload_then_marker:
  "0 < length bz \<Longrightarrow>
     fst (receive s ev1 ev2 bz True) \<in> {[], [bz], [bz, []]}
   \<and> (snd (receive s ev1 ev2 bz True) = Done None) = (fst (receive s ev1 ev2 bz True) = [bz, []])
   \<and> (\<not> chClose s \<longrightarrow> receive s (Partner ()) (Partner ()) bz True = ([bz, []], Done None))
   \<and> (\<not> chClose s \<longrightarrow> Read s (Partner []) target = Done (0, None, target))
   \<and> (\<not> chClose s \<and> length bz \<le> length target \<longrightarrow>
        map (\<lambda>chunk. Read s (Partner chunk) target)
            (fst (receive s (Partner ()) (Partner ()) bz True))
          = [Done (length bz, None, bz @ drop (length bz) target), Done (0, None, target)])"
  by (cases ev1; cases ev2)
     (auto simp: receive_def Read_def copy_def select_chan_or_close_def)

theorem receive_payload_then_marker_witness:
  "receive \<lparr>stream_id = 1, chClose = False, chCloseOnce = False\<rparr> (Partner ()) (Partner ())
       [104, 105] True = ([[104, 105], []], Done None)
   \<and> map (\<lambda>chunk. Read \<lparr>stream_id = 1, chClose = False, chCloseOnce = False\<rparr>
                      (Partner chunk) [0, 0, 0])
         (fst (receive \<lparr>stream_id = 1, chClose = False, chCloseOnce = False\<rparr>
                 (Partner ()) (Partner ()) [104, 105] True))
       = [Done (2, None, [104, 105, 0]), Done (0, None, [0, 0, 0])]"
proof -
  let ?s = "\<lparr>stream_id = 1, chClose = False, chCloseOnce = False\<rparr>"
  let ?bz = "[104, 105 :: byte]"
  let ?target = "[0, 0, 0 :: byte]"
  have len: "0 < length ?bz" by simp
  have op: "\<not> chClose ?s" by simp
  have fits: "length ?bz \<le> length ?target" by simp
  note t = receive_payload_then_marker [OF len, of ?s "Partner ()" "Partner ()" ?target]
  have r: "receive ?s (Partner ()) (Partner ()) ?bz True = ([?bz, []], Done None)"
    using t op by blast
  have m: "map (\<lambda>chunk. Read ?s (Partner chunk) ?target)
             (fst (receive ?s (Partner ()) (Partner ()) ?bz True))
      = [Done (length ?bz, None, ?bz @ drop (length ?bz) ?target), Done (0, None, ?target)]"
    using t op fits by blast
  have "Done (length ?bz, None, ?bz @ drop (length ?bz) ?target)
      = (Done (2, None, [104, 105, 0]) :: (nat \<times> error option \<times> bytes) outcome)"
    by simp
  then show ?thesis using r m by simp
qed

text \<open>
  C8. On a stream made by \<open>newMConnStream\<close> and changed by \<open>Close\<close> only, \<open>Close\<close>
  returns \<^verbatim>\<open>nil\<close> and leaves the stream closed; any number of calls in a row all
  return \<^verbatim>\<open>nil\<close> and leave the stream as one call does. On the closed stream every
  \<open>Read\<close> returns 0 bytes and \<open>EOF\<close> whatever else is going on, a \<open>Read\<close> that was
  waiting when the stream is closed returns the same, and every \<open>Write\<close> returns 0 bytes
  and an error.
\<close>

theorem Close_idempotent:
  "stream_ok s \<Longrightarrow>
     (\<exists>s'. Close s = Returns (s', None) \<and> chClose s' \<and>
        (\<forall>n. Close_times (Suc n) s = Returns (s', replicate (Suc n) None)) \<and>
        (\<forall>ev target. Read s' ev target = Done (0, Some EOF, target)) \<and>
        (\<forall>target. Read s Closes target = Done (0, Some EOF, target)) \<and>
        (\<forall>send bz. \<exists>e. Write s' send bz = (0, Some e)))"
proof -
  assume ok: "stream_ok s"
  let ?s' = "s\<lparr>chClose := True, chCloseOnce := True\<rparr>"
  have c: "Close s = Returns (?s', None)" using ok by (rule Close_first)
  have "Close_times (Suc n) s = Returns (?s', replicate (Suc n) None)" for n
    using Close_times_done [of ?s' n] by (simp add: c)
  moreover have "Read ?s' ev target = Done (0, Some EOF, target)" for ev target
    by (simp add: Read_def select_chan_or_close_def)
  moreover have "Read s Closes target = Done (0, Some EOF, target)" for target
    by (simp add: Read_def select_chan_or_close_def)
  moreover have "\<exists>e. Write ?s' send bz = (0, Some e)" for send bz
    by (simp add: Write_def isClosed_def)
  ultimately show ?thesis using c by simp
qed

theorem Close_idempotent_witness:
  "stream_ok \<lparr>stream_id = 1, chClose = False, chCloseOnce = False\<rparr>
   \<and> newMConnStream 1 = Inr \<lparr>stream_id = 1, chClose = False, chCloseOnce = False\<rparr>
   \<and> (\<exists>s'. Close \<lparr>stream_id = 1, chClose = False, chCloseOnce = False\<rparr> = Returns (s', None)
         \<and> Close_times 3 \<lparr>stream_id = 1, chClose = False, chCloseOnce = False\<rparr>
             = Returns (s', [None, None, None])
         \<and> Read s' (Partner [7]) [0] = Done (0, Some EOF, [0])
         \<and> (\<exists>e. Write s' (\<lambda>i bz. True) [7] = (0, Some e)))"
proof -
  let ?s = "\<lparr>stream_id = 1, chClose = False, chCloseOnce = False\<rparr>"
  have ok: "stream_ok ?s" by (simp add: stream_ok_def)
  have new: "newMConnStream 1 = Inr ?s" by (simp add: newMConnStream_def)
  obtain s' where c: "Close ?s = Returns (s', None)"
    and t: "\<forall>n. Close_times (Suc n) ?s = Returns (s', replicate (Suc n) None)"
    and r: "\<forall>ev target. Read s' ev target = Done (0, Some EOF, target)"
    and w: "\<forall>send bz. \<exists>e. Write s' send bz = (0, Some e)"
    using Close_idempotent [OF ok] by blast
  have "Close_times 3 ?s = Returns (s', [None, None, None])"
    using t [rule_format, of 2] by (simp add: numeral_3_eq_3)
  then show ?thesis using ok new c r w by blast
qed

subsection \<open>Endpoints\<close>

text \<open>
  C9. When \<open>normalizeEndpoint\<close> accepts an endpoint, the endpoint it leaves has the
  protocol \<open>mconn\<close> and a port other than 0, and normalizing it again succeeds and
  leaves it unchanged. \<^verbatim>\<open>Endpoint.Validate\<close> is a parameter here; the statement is for
  a \<open>validate\<close> that accepts the normalized endpoint.
\<close>

theorem normalizeEndpoint_idempotent:
  "normalizeEndpoint validate (Some e) = (Some e', None) \<Longrightarrow> validate e' = None \<Longrightarrow>
     normalizeEndpoint validate (Some e') = (Some e', None)
     \<and> Protocol e' = MConnProtocol \<and> Port e' \<noteq> 0"
  by (cases e)
     (auto simp: normalizeEndpoint_def Let_def MConnProtocol_def split: option.splits if_splits)

theorem normalizeEndpoint_idempotent_witness:
  "normalizeEndpoint (\<lambda>e. if PeerID e = [] then Some (Errorf ''endpoint has no peer ID'') else None)
       (Some \<lparr>Protocol = [], PeerID = ''ab'', IP = [127, 0, 0, 1], Port = 0, Path = []\<rparr>)
     = (Some \<lparr>Protocol = ''mconn'', PeerID = ''ab'', IP = [127, 0, 0, 1], Port = 26657, Path = []\<rparr>, None)
   \<and> normalizeEndpoint (\<lambda>e. if PeerID e = [] then Some (Errorf ''endpoint has no peer ID'') else None)
       (Some \<lparr>Protocol = ''mconn'', PeerID = ''ab'', IP = [127, 0, 0, 1], Port = 26657, Path = []\<rparr>)
     = (Some \<lparr>Protocol = ''mconn'', PeerID = ''ab'', IP = [127, 0, 0, 1], Port = 26657, Path = []\<rparr>, None)"
proof -
  let ?v = "\<lambda>e. if PeerID e = [] then Some (Errorf ''endpoint has no peer ID'') else None"
  let ?e = "\<lparr>Protocol = [], PeerID = ''ab'', IP = [127, 0, 0, 1], Port = 0, Path = []\<rparr>"
  let ?e' = "\<lparr>Protocol = ''mconn'', PeerID = ''ab'', IP = [127, 0, 0, 1], Port = 26657, Path = []\<rparr>"
  have n: "normalizeEndpoint ?v (Some ?e) = (Some ?e', None)"
    by (simp add: normalizeEndpoint_def MConnProtocol_def)
  have v: "?v ?e' = None" by simp
  show ?thesis using n normalizeEndpoint_idempotent [OF n v] by (simp add: MConnProtocol_def)
qed

subsection \<open>Looking up a stream\<close>

lemma ucast_add_256: "ucast (k + 256 :: 16 word) = (ucast k :: 8 word)"
proof -
  have "(256::nat) dvd 65536" by simp
  then have "unat (ucast (k + 256) :: 8 word) = unat (ucast k :: 8 word)"
    by (simp add: unsigned_ucast_eq unat_word_ariths take_bit_eq_mod mod_mod_cancel)
  then show ?thesis
    by (simp only: word_unat_eq_iff)
qed

lemma unat_ucast_byte: "unat (ucast (b :: 8 word) :: 16 word) \<le> 255"
proof -
  have "unat b < 2 ^ 8" using unsigned_less [of b] by simp
  then show ?thesis by (simp add: unsigned_ucast_eq take_bit_eq_mod)
qed

lemma ucast_ucast_byte: "(ucast (ucast (b :: 8 word) :: 16 word) :: 8 word) = b"
  by (rule bit_word_eqI) (auto simp: bit_ucast_iff dest: bit_imp_le_length)

text \<open>
  The loop over the channel descriptors never fails, and the map it builds has a new
  stream under each configured identifier and nothing else new.
\<close>

lemma make_streams_lookup:
  "\<exists>st'. make_streams descs st = (st', None) \<and>
     (\<forall>b. st' b = (if b \<in> ID ` set descs
                    then Some \<lparr>stream_id = b, chClose = False, chCloseOnce = False\<rparr> else st b))"
proof (induction descs arbitrary: st)
  case Nil
  then show ?case by simp
next
  case (Cons chDesc rest)
  let ?new = "\<lparr>stream_id = ID chDesc, chClose = False, chCloseOnce = False\<rparr>"
  have new: "newMConnStream (ucast (ID chDesc)) = Inr ?new"
    using unat_ucast_byte [of "ID chDesc"] by (simp add: newMConnStream_def ucast_ucast_byte)
  obtain st' where st': "make_streams rest (st(ID chDesc \<mapsto> ?new)) = (st', None)"
    and look: "\<forall>b. st' b = (if b \<in> ID ` set rest
                 then Some \<lparr>stream_id = b, chClose = False, chCloseOnce = False\<rparr>
                 else (st(ID chDesc \<mapsto> ?new)) b)"
    using Cons.IH by blast
  show ?case using st' look by (auto simp: new)
qed

text \<open>
  C10, as stated, fails at its last part. On a connection with channel 1 only, the
  identifier 258 has the low byte 2, which is no configured channel; \<open>Stream\<close> returns
  the \<^verbatim>\<open>nil\<close> error and a \<^verbatim>\<open>Stream\<close> that holds the \<^verbatim>\<open>nil\<close> pointer found in
  the map, which is not the \<^verbatim>\<open>nil\<close> \<^verbatim>\<open>Stream\<close>.
\<close>

theorem Stream_not_nil_counterexample:
  "map ID [\<lparr>ID = 1, Priority = 5\<rparr>] = [1]
   \<and> (ucast (258 :: uint16) :: byte) = 2
   \<and> Stream \<lparr>secretConn = None, mConn = None,
        streams = fst (make_streams [\<lparr>ID = 1, Priority = 5\<rparr>] Map.empty),
        nodeInfo = DefaultNodeInfo_zero\<rparr> 258 = (HoldsStream None, None)
   \<and> fst (Stream \<lparr>secretConn = None, mConn = None,
        streams = fst (make_streams [\<lparr>ID = 1, Priority = 5\<rparr>] Map.empty),
        nodeInfo = DefaultNodeInfo_zero\<rparr> 258) \<noteq> NilStream"
  by (simp add: Stream_def newMConnStream_def)

text \<open>
  C10, amended. \<open>Stream\<close> never returns an error and never returns the \<^verbatim>\<open>nil\<close>
  \<^verbatim>\<open>Stream\<close>: it looks up the low 8 bits of the identifier in the stream map and
  returns a \<^verbatim>\<open>Stream\<close> holding what it finds, so \<open>k\<close> and \<open>k + 256\<close> give the same
  result, and on a connection whose map was built from the channel descriptors an
  identifier whose low byte is none of the configured ones gives a \<^verbatim>\<open>Stream\<close> that
  holds the \<^verbatim>\<open>nil\<close> pointer, with the \<^verbatim>\<open>nil\<close> error.
\<close>

theorem Stream_low_byte:
  "Stream c i = (HoldsStream (streams c (ucast i)), None) \<and> Stream c (k + 256) = Stream c k \<and>
   fst (Stream c i) \<noteq> NilStream \<and>
   (fst (make_streams descs Map.empty) = streams c \<longrightarrow> ucast i \<notin> ID ` set descs
      \<longrightarrow> Stream c i = (HoldsStream None, None))"
proof -
  obtain st' where "make_streams descs Map.empty = (st', None)"
    and "\<forall>b. st' b = (if b \<in> ID ` set descs
                then Some \<lparr>stream_id = b, chClose = False, chCloseOnce = False\<rparr> else Map.empty b)"
    using make_streams_lookup [of descs Map.empty] by blast
  then show ?thesis
    by (auto simp: Stream_def ucast_add_256)
qed

theorem Stream_low_byte_witness:
  "Stream \<lparr>secretConn = None, mConn = None,
       streams = fst (make_streams [\<lparr>ID = 1, Priority = 5\<rparr>] Map.empty),
       nodeInfo = DefaultNodeInfo_zero\<rparr> 514 = (HoldsStream None, None)"
proof -
  let ?descs = "[\<lparr>ID = 1, Priority = 5\<rparr>]"
  let ?c = "\<lparr>secretConn = None, mConn = None, streams = fst (make_streams ?descs Map.empty),
             nodeInfo = DefaultNodeInfo_zero\<rparr>"
  have h1: "fst (make_streams ?descs Map.empty) = streams ?c" by simp
  have h2: "ucast (514 :: uint16) \<notin> ID ` set ?descs" by simp
  from Stream_low_byte [of ?c 514 0 ?descs] h1 h2 show ?thesis by blast
qed

subsection \<open>The handshake\<close>














text \<open>
  C3. Once the deadline is armed, the secure channel is made, the node infos are exchanged
  and the peer's node info is valid, the identity checks run in this order: an expected
  peer identity that is not the one derived from the peer's public key gives a rejection
  flagged \<open>isAuthFailure\<close>; otherwise a declared identity equal to this node's own
  gives a rejection flagged \<open>isSelf\<close>; otherwise node infos that are not compatible
  give a rejection flagged \<open>isIncompatible\<close>. Each rejection carries that one flag
  only.
\<close>

theorem identity_checks_in_order:
  assumes "SetDeadline w = Returns None"
    and "MakeSecretConnection w = Returns (Inr sc)"
    and "handshake w = Returns (ni, None)"
    and "Validate d ni = Returns None"
  shows
   "(expectPeerID \<noteq> [] \<and> PubKeyToID d (RemotePubKey sc) = Returns peerID \<and> peerID \<noteq> expectPeerID
       \<longrightarrow> (\<exists>conn e. newMConnConnection d transport w tcpConn expectPeerID =
              Returns (conn, Some (ErrRejected None tcpConn (Some e) peerID
                                     (no_flags\<lparr>isAuthFailure := True\<rparr>)))))
    \<and> ((expectPeerID = [] \<or> PubKeyToID d (RemotePubKey sc) = Returns expectPeerID)
        \<and> NodeInfo_ID (t_nodeInfo transport) = NodeInfo_ID ni
        \<and> NewNetAddress d (NodeInfo_ID ni) (RemoteAddr sc) = Returns a
       \<longrightarrow> (\<exists>conn. newMConnConnection d transport w tcpConn expectPeerID =
              Returns (conn, Some (ErrRejected (Some a) tcpConn None (NodeInfo_ID ni)
                                     (no_flags\<lparr>isSelf := True\<rparr>)))))
    \<and> ((expectPeerID = [] \<or> PubKeyToID d (RemotePubKey sc) = Returns expectPeerID)
        \<and> NodeInfo_ID (t_nodeInfo transport) \<noteq> NodeInfo_ID ni
        \<and> CompatibleWith d (t_nodeInfo transport) ni = Returns (Some err)
       \<longrightarrow> (\<exists>conn. newMConnConnection d transport w tcpConn expectPeerID =
              Returns (conn, Some (ErrRejected None tcpConn (Some err) (NodeInfo_ID ni)
                                     (no_flags\<lparr>isIncompatible := True\<rparr>)))))"
  using assms
  by (auto simp: newMConnConnection_def newMConnConnection_body_def check_identity_def
        call_then_def Let_def)

theorem identity_checks_in_order_witness:
  "(\<exists>conn. newMConnConnection example_deps node1 peer2 7 ''node9''
     = Returns (conn, Some (ErrRejected None 7
               (Some (Errorf ''conn.ID (node2) dialed ID (node9) mismatch'')) ''node2''
               (no_flags\<lparr>isAuthFailure := True\<rparr>))))
   \<and> (\<exists>conn. newMConnConnection example_deps (node1\<lparr>t_nodeInfo := node2_info\<rparr>) peer2 7 ''node2''
     = Returns (conn, Some (ErrRejected (Some (''node2'', TCPAddr [10, 0, 0, 2] 26656)) 7 None
               ''node2'' (no_flags\<lparr>isSelf := True\<rparr>))))
   \<and> (\<exists>conn. newMConnConnection example_deps
            (node1\<lparr>t_nodeInfo := node1_info\<lparr>Network := ''mainnet''\<rparr>\<rparr>) peer2 7 []
     = Returns (conn, Some (ErrRejected None 7 (Some (Errorf ''peer is on a different network''))
               ''node2'' (no_flags\<lparr>isIncompatible := True\<rparr>))))"
proof -
  have p1: "SetDeadline peer2 = Returns None" by (simp add: peer2_def)
  have p2: "MakeSecretConnection peer2 = Returns (Inr peer2_secret)" by (simp add: peer2_def)
  have p3: "handshake peer2 = Returns (node2_info, None)" by (simp add: handshake_def peer2_def)
  have p4: "Validate example_deps node2_info = Returns None"
    by (simp add: example_deps_def node2_info_def)
  have key: "PubKeyToID example_deps (RemotePubKey peer2_secret) = Returns ''node2''"
    by (simp add: example_deps_def peer2_secret_def)
  have id2: "NodeInfo_ID node2_info = ''node2''"
    by (simp add: NodeInfo_ID_def node2_info_def)
  have a: "\<exists>conn. newMConnConnection example_deps node1 peer2 7 ''node9''
     = Returns (conn, Some (ErrRejected None 7
               (Some (Errorf ''conn.ID (node2) dialed ID (node9) mismatch'')) ''node2''
               (no_flags\<lparr>isAuthFailure := True\<rparr>)))"
  proof -
    obtain conn e where "newMConnConnection example_deps node1 peer2 7 ''node9'' =
        Returns (conn, Some (ErrRejected None 7 (Some e) ''node2''
                               (no_flags\<lparr>isAuthFailure := True\<rparr>)))"
      using identity_checks_in_order [OF p1 p2 p3 p4, where expectPeerID = "''node9''"
              and peerID = "''node2''" and transport = node1 and tcpConn = 7] key
      by auto
    then show ?thesis
      by (simp add: newMConnConnection_def newMConnConnection_body_def check_identity_def
            call_then_def p1 p2 p3 p4 key)
  qed
  have b: "\<exists>conn. newMConnConnection example_deps (node1\<lparr>t_nodeInfo := node2_info\<rparr>) peer2 7 ''node2''
     = Returns (conn, Some (ErrRejected (Some (''node2'', TCPAddr [10, 0, 0, 2] 26656)) 7 None
               ''node2'' (no_flags\<lparr>isSelf := True\<rparr>)))"
  proof -
    have addr: "NewNetAddress example_deps (NodeInfo_ID node2_info) (RemoteAddr peer2_secret)
        = Returns (''node2'', TCPAddr [10, 0, 0, 2] 26656)"
      by (simp add: example_deps_def peer2_secret_def NodeInfo_ID_def node2_info_def)
    have same: "NodeInfo_ID (t_nodeInfo (node1\<lparr>t_nodeInfo := node2_info\<rparr>)) = NodeInfo_ID node2_info"
      by simp
    have "\<exists>conn. newMConnConnection example_deps (node1\<lparr>t_nodeInfo := node2_info\<rparr>) peer2 7 ''node2'' =
        Returns (conn, Some (ErrRejected (Some (''node2'', TCPAddr [10, 0, 0, 2] 26656)) 7 None
                       (NodeInfo_ID node2_info) (no_flags\<lparr>isSelf := True\<rparr>)))"
      using identity_checks_in_order [OF p1 p2 p3 p4, where expectPeerID = "''node2''"
              and transport = "node1\<lparr>t_nodeInfo := node2_info\<rparr>"
              and a = "(''node2'', TCPAddr [10, 0, 0, 2] 26656)" and tcpConn = 7] key addr same
      by blast
    then show ?thesis by (simp only: id2)
  qed
  have c: "\<exists>conn. newMConnConnection example_deps
            (node1\<lparr>t_nodeInfo := node1_info\<lparr>Network := ''mainnet''\<rparr>\<rparr>) peer2 7 []
     = Returns (conn, Some (ErrRejected None 7 (Some (Errorf ''peer is on a different network''))
               ''node2'' (no_flags\<lparr>isIncompatible := True\<rparr>)))"
  proof -
    let ?t = "node1\<lparr>t_nodeInfo := node1_info\<lparr>Network := ''mainnet''\<rparr>\<rparr>"
    have diff: "NodeInfo_ID (t_nodeInfo ?t) \<noteq> NodeInfo_ID node2_info"
      by (simp add: NodeInfo_ID_def node1_info_def node2_info_def)
    have inc: "CompatibleWith example_deps (t_nodeInfo ?t) node2_info
        = Returns (Some (Errorf ''peer is on a different network''))"
      by (simp add: example_deps_def node1_info_def node2_info_def)
    have "\<exists>conn. newMConnConnection example_deps ?t peer2 7 [] =
        Returns (conn, Some (ErrRejected None 7 (Some (Errorf ''peer is on a different network''))
                       (NodeInfo_ID node2_info) (no_flags\<lparr>isIncompatible := True\<rparr>)))"
      using identity_checks_in_order [OF p1 p2 p3 p4, where expectPeerID = "[]" and transport = ?t
              and err = "Errorf ''peer is on a different network''" and tcpConn = 7]
        diff inc
      by blast
    then show ?thesis by (simp only: id2)
  qed
  show ?thesis using a b c by blast
qed

subsection \<open>The filter step\<close>















subsection \<open>The accept worker and Dial\<close>

lemma ConnSet_Remove_gone: "\<not> ConnSet_Has (ConnSet_Remove cs c) c"
  by (simp add: ConnSet_Has_def ConnSet_Remove_def list_ex_iff)

lemma accept_worker_handshake_failure:
  assumes "filterTCPConn m w c = (m1, None)"
    and "newMConnConnection d m1 w c [] = Returns (conn, Some err)"
  shows "\<not> ConnSet_Has (conns (fst (accept_worker d m w c))) c
     \<and> TcpClose c \<in> set (fst (snd (accept_worker d m w c)))"
  using assms
  by (simp add: accept_worker_def ConnSet_Remove_gone Let_def split: prod.splits)

lemma accept_worker_after_rejection:
  assumes "filterTCPConn m w c = (m1, Some err)"
    and "snd (send_error m1 (filter_error_wait w) err)"
  shows "Handshake c [] \<in> set (fst (snd (accept_worker d m w c)))"
  using assms
  by (auto simp: accept_worker_def Let_def
        split: prod.splits option.splits selected.splits call.splits)

lemma Dial_never_closes: "TcpClose c \<notin> set (fst (snd (Dial d m w ep)))"
  by (auto simp: Dial_def split: prod.splits option.splits sum.splits call.splits)

text \<open>
  A connection that is made when the transport has been closed is closed by the worker,
  and closing it takes every socket with the peer's address out of the set.
\<close>

lemma mConnConnection_Close_deregisters:
  "mConnConnection_Close d m w c = Returns (m2, c', e) \<Longrightarrow>
     \<exists>sc. secretConn c = Some sc \<and>
       m2 = m\<lparr>conns := ConnSet_RemoveAddr (RemoteAddr_of d) (conns m) (RemoteAddr sc)\<rparr>"
  by (auto simp: mConnConnection_Close_def Let_def split: option.splits call.splits)

lemma accept_worker_closes_connection:
  assumes "filterTCPConn m w c = (m1, None)"
    and "newMConnConnection d m1 w c [] = Returns (Some conn, None)"
    and "select_chan_or_close (t_chClose m1) (accept_wait w) = CloseCase"
    and "mConnConnection_Close d m1 w conn = Returns (m2, conn', e)"
  shows "accept_worker d m w c = (m2, [Handshake c [], ConnClose (Some conn)], True)
     \<and> (\<exists>sc. secretConn conn = Some sc \<and>
           conns m2 = ConnSet_RemoveAddr (RemoteAddr_of d) (conns m1) (RemoteAddr sc))"
  using assms mConnConnection_Close_deregisters [OF assms(4)]
  by (auto simp: accept_worker_def)

text \<open>
  C1. The code at the input that breaks the claim. Node 1 already has a connection from
  10.0.0.2, so the duplicate-IP filter rejects socket 7 from the same address. The worker
  closes the socket and hands the rejection to a caller of \<^verbatim>\<open>Accept\<close>, and then
  goes on: it calls \<open>newMConnConnection\<close> on the closed socket, closes the socket
  again and hands over a second error.
\<close>

theorem accept_worker_handshakes_after_rejection:
  "snd (filterTCPConn (node1\<lparr>conns := [(3, [[10, 0, 0, 2]])]\<rparr>)
          (peer2\<lparr>SetDeadline := Returns (Some (Errorf ''use of closed network connection''))\<rparr>) 7)
     = Some (ErrRejected None 7
               (Some (ErrRejected None 7 (Some (Errorf ''ip already connected'')) []
                        (no_flags\<lparr>isDuplicate := True\<rparr>)))
               [] (no_flags\<lparr>isFiltered := True\<rparr>))
   \<and> fst (snd (accept_worker example_deps (node1\<lparr>conns := [(3, [[10, 0, 0, 2]])]\<rparr>)
          (peer2\<lparr>SetDeadline := Returns (Some (Errorf ''use of closed network connection''))\<rparr>) 7))
     = [TcpClose 7,
        ErrorSent (ErrRejected None 7
                     (Some (ErrRejected None 7 (Some (Errorf ''ip already connected'')) []
                              (no_flags\<lparr>isDuplicate := True\<rparr>)))
                     [] (no_flags\<lparr>isFiltered := True\<rparr>)),
        Handshake 7 [],
        TcpClose 7,
        ErrorSent (ErrRejected None 7
                     (Some (Errorf ''secret conn failed: use of closed network connection''))
                     [] (no_flags\<lparr>isAuthFailure := True\<rparr>))]"
proof -
  let ?m = "node1\<lparr>conns := [(3, [[10, 0, 0, 2]])]\<rparr>"
  let ?w = "peer2\<lparr>SetDeadline := Returns (Some (Errorf ''use of closed network connection''))\<rparr>"
  let ?rej = "ErrRejected None 7
               (Some (ErrRejected None 7 (Some (Errorf ''ip already connected'')) []
                        (no_flags\<lparr>isDuplicate := True\<rparr>)))
               [] (no_flags\<lparr>isFiltered := True\<rparr>)"
  have w: "SplitHostPort ?w = Inr ''10.0.0.2''" "ParseIP ?w = Some [10, 0, 0, 2]"
      "select_tie ?w = False" "filter_delays ?w = [Some 2]"
    by (simp_all add: peer2_def)
  have m: "conns ?m = [(3, [[10, 0, 0, 2]])]" "filterTimeout ?m = 5"
      "connFilters ?m = [ConnDuplicateIPFilter]"
    by (simp_all add: node1_def)
  have q: "dispatch_filters ?m [Some 2] 7 [10, 0, 0, 2]
      = [(2, Some (ErrRejected None 7 (Some (Errorf ''ip already connected'')) []
                     (no_flags\<lparr>isDuplicate := True\<rparr>)))]"
    by (simp add: dispatch_filters_def m ConnSet_HasIP_def)
  have f: "filterTCPConn ?m ?w 7 = (?m, Some ?rej)"
    by (simp add: filterTCPConn_def w m q ConnSet_Has_def)
  have h: "newMConnConnection example_deps ?m ?w 7 []
      = Returns (None, Some (auth_failure 7 ''secret conn failed: use of closed network connection''))"
    by (simp add: newMConnConnection_def newMConnConnection_body_def call_then_def peer2_def)
  have s: "\<not> t_chClose node1" "filter_error_wait ?w = Partner ()"
      "handshake_error_wait ?w = Partner ()"
    by (simp_all add: node1_def peer2_def)
  show ?thesis
    by (simp add: accept_worker_def f h send_error_def select_chan_or_close_def s auth_failure_def)
qed

text \<open>
  C4. The code at the input that breaks the claim. Node 1 dials the peer behind socket 7
  expecting \<open>node9\<close>; the filter step succeeds and registers the socket, the handshake
  fails because the peer is \<open>node2\<close>. \<open>Dial\<close> returns the rejection and has
  deregistered the socket, but the only thing it did to the socket is the handshake: it
  never closes it.
\<close>

theorem Dial_leaves_socket_open:
  "snd (filterTCPConn node1 peer2 7) = None
   \<and> conns (fst (filterTCPConn node1 peer2 7)) = [(7, [[10, 0, 0, 2]])]
   \<and> snd (snd (Dial example_deps node1 peer2
        \<lparr>Protocol = ''mconn'', PeerID = ''node9'', IP = [10, 0, 0, 2], Port = 26656, Path = []\<rparr>))
     = Returns (None, Some (ErrRejected None 7
               (Some (Errorf ''conn.ID (node2) dialed ID (node9) mismatch'')) ''node2''
               (no_flags\<lparr>isAuthFailure := True\<rparr>)))
   \<and> fst (snd (Dial example_deps node1 peer2
        \<lparr>Protocol = ''mconn'', PeerID = ''node9'', IP = [10, 0, 0, 2], Port = 26656, Path = []\<rparr>))
     = [Handshake 7 ''node9'']
   \<and> conns (fst (Dial example_deps node1 peer2
        \<lparr>Protocol = ''mconn'', PeerID = ''node9'', IP = [10, 0, 0, 2], Port = 26656, Path = []\<rparr>))
     = []"
proof -
  let ?ep = "\<lparr>Protocol = ''mconn'', PeerID = ''node9'', IP = [10, 0, 0, 2], Port = 26656, Path = []\<rparr>"
  let ?m1 = "node1\<lparr>conns := [(7, [[10, 0, 0, 2]])]\<rparr>"
  have n: "normalizeEndpoint (Endpoint_Validate example_deps) (Some ?ep) = (Some ?ep, None)"
    by (simp add: normalizeEndpoint_def example_deps_def MConnProtocol_def)
  have w: "SplitHostPort peer2 = Inr ''10.0.0.2''" "ParseIP peer2 = Some [10, 0, 0, 2]"
      "select_tie peer2 = False" "filter_delays peer2 = [Some 2]"
    by (simp_all add: peer2_def)
  have m: "conns node1 = []" "filterTimeout node1 = 5" "connFilters node1 = [ConnDuplicateIPFilter]"
    by (simp_all add: node1_def)
  have q: "dispatch_filters node1 [Some 2] 7 [10, 0, 0, 2] = [(2, None)]"
    by (simp add: dispatch_filters_def m ConnSet_HasIP_def)
  have f: "filterTCPConn node1 peer2 7 = (?m1, None)"
    by (simp add: filterTCPConn_def w m q ConnSet_Has_def ConnSet_Set_def ConnSet_Remove_def)
  have h: "newMConnConnection example_deps ?m1 peer2 7 ''node9''
      = Returns (Some \<lparr>secretConn = Some peer2_secret, mConn = None, streams = Map.empty,
                        nodeInfo = node2_info\<rparr>,
                 Some (ErrRejected None 7
                         (Some (Errorf ''conn.ID (node2) dialed ID (node9) mismatch'')) ''node2''
                         (no_flags\<lparr>isAuthFailure := True\<rparr>)))"
    by (simp add: newMConnConnection_def newMConnConnection_body_def check_identity_def
          call_then_def handshake_def peer2_def example_deps_def node2_info_def peer2_secret_def)
  have d: "DialContext peer2 = Inr 7" by (simp add: peer2_def)
  show ?thesis
    by (simp add: Dial_def n d f h ConnSet_Remove_def)
qed

end
